theory Spec2Isabelle
  imports Main
begin

section \<open>The main menus of the application (packages/mainmenu/src/menus.ts)\<close>

text \<open>
  The file defines \<open>JupyterLabMenu\<close>, a toolkit menu extended with rank-ordered groups of
  items, and its specialisations; \<open>KernelMenu\<close> adds a registry of kernel users and three
  commands that delegate to the user owning the focused widget.

  Mutation is explicit state passing: every method takes the object as a record and returns
  the updated record. Inheritance is record extension, so \<open>addGroup\<close>, written for
  \<open>JupyterLabMenu\<close>, runs on a \<open>KernelMenu\<close> unchanged. A runtime \<open>TypeError\<close> is a
  value of the sum type \<open>error + 'r\<close>.
\<close>

subsection \<open>Command identifiers\<close>

definition CommandIDs_interruptKernel :: string where
  "CommandIDs_interruptKernel = ''kernel:interrupt''"

definition CommandIDs_restartKernel :: string where
  "CommandIDs_restartKernel = ''kernel:restart''"

definition CommandIDs_changeKernel :: string where
  "CommandIDs_changeKernel = ''kernel:change''"

subsection \<open>Data\<close>

text \<open>
  \<open>Menu.IItemOptions\<close>: the menu only discriminates the type of a descriptor
  (\<open>{ command }\<close>, \<open>{ type: 'separator' }\<close>, \<open>{ type: 'submenu', submenu }\<close>); a command is
  referenced by its identifier, a submenu by its title.
\<close>

datatype IItemOptions = Command string | Separator | Submenu string

text \<open>
  \<open>Private.IRankGroup\<close>. The rank is a TypeScript \<open>number\<close>; the specification takes ranks
  to be integers, and so does the model.
\<close>

record IRankGroup =
  items :: "IItemOptions list"
  rank :: int

text \<open>The toolkit's \<open>Menu\<close>, reduced to what this file reads and writes: title and items.\<close>

record Menu =
  title_label :: string
  menu_items :: "IItemOptions list"

text \<open>\<open>class JupyterLabMenu extends Menu\<close>: the fields \<open>startIndex\<close> and \<open>_groups\<close>.\<close>

record JupyterLabMenu = Menu +
  startIndex :: nat
  groups :: "IRankGroup list"

text \<open>
  Modelled from the spec: the declarations \<open>IMainMenu.IKernelMenu.IKernelUser\<close> and
  \<open>IInstanceTracker\<close> are not in the source. A tracker answers whether it owns a widget
  (\<open>tracker.has(widget)\<close>); each of the three delegates is optional, and the source tests
  their presence with \<open>!!user.interruptKernel\<close>.
\<close>

record 'w IInstanceTracker =
  has :: "'w \<Rightarrow> bool"

record ('w, 'r) IKernelUser =
  tracker :: "'w IInstanceTracker"
  interruptKernel :: "('w \<Rightarrow> 'r) option"
  restartKernel :: "('w \<Rightarrow> 'r) option"
  changeKernel :: "('w \<Rightarrow> 'r) option"

text \<open>\<open>class KernelMenu extends JupyterLabMenu\<close>: the field \<open>_users\<close>.\<close>

record ('w, 'r) KernelMenu = JupyterLabMenu +
  users :: "('w, 'r) IKernelUser list"

text \<open>
  The part of the application object that the commands read: \<open>app.shell.currentWidget\<close>,
  a \<open>Widget | null\<close>.
\<close>

record 'w JupyterLab =
  shell_currentWidget :: "'w option"

text \<open>What a failing dereference or call raises at run time.\<close>

datatype error = TypeError

subsection \<open>The toolkit and algorithm-library functions the file calls\<close>

text \<open>
  Modelled from the spec: \<open>ArrayExt.upperBound\<close> belongs to the algorithm library and is
  not in the source. The specification describes it as an upper-bound search: the first
  position whose element compares strictly greater than the value, the length of the array
  when there is none. On an array sorted by the comparison, the library's binary search
  returns this position.
\<close>

fun ArrayExt_upperBound :: "'a list \<Rightarrow> 'b \<Rightarrow> ('a \<Rightarrow> 'b \<Rightarrow> int) \<Rightarrow> nat" where
  "ArrayExt_upperBound [] v fn = 0"
| "ArrayExt_upperBound (x # xs) v fn =
     (if fn x v > 0 then 0 else Suc (ArrayExt_upperBound xs v fn))"

text \<open>
  Modelled from the spec: \<open>ArrayExt.insert\<close> is not in the source. It is a positional insert
  that shifts the later elements; the index is clamped to the bounds of the array.
\<close>

definition ArrayExt_insert :: "'a list \<Rightarrow> nat \<Rightarrow> 'a \<Rightarrow> 'a list" where
  "ArrayExt_insert array index v =
     (let i = min index (length array) in take i array @ v # drop i array)"

text \<open>
  Modelled from the spec: \<open>ArrayExt.findFirstValue\<close> is not in the source. It returns the
  first element, in array order, that satisfies the predicate, and \<open>undefined\<close> when no
  element does.
\<close>

fun ArrayExt_findFirstValue :: "'a list \<Rightarrow> ('a \<Rightarrow> bool) \<Rightarrow> 'a option" where
  "ArrayExt_findFirstValue [] fn = None"
| "ArrayExt_findFirstValue (x # xs) fn =
     (if fn x then Some x else ArrayExt_findFirstValue xs fn)"

text \<open>
  Modelled from the spec: \<open>Menu.insertItem\<close> and \<open>Menu.addItem\<close> belong to the widget toolkit
  and are not in the source. \<open>insertItem\<close> clamps the index to the bounds of the item list and
  inserts there; \<open>addItem\<close> inserts at the end.
\<close>

definition Menu_insertItem :: "nat \<Rightarrow> IItemOptions \<Rightarrow> 'a Menu_scheme \<Rightarrow> 'a Menu_scheme" where
  "Menu_insertItem index options m =
     (let i = max 0 (min index (length (menu_items m)))
      in m\<lparr>menu_items := ArrayExt_insert (menu_items m) i options\<rparr>)"

definition Menu_addItem :: "IItemOptions \<Rightarrow> 'a Menu_scheme \<Rightarrow> 'a Menu_scheme" where
  "Menu_addItem options m = Menu_insertItem (length (menu_items m)) options m"

subsection \<open>JupyterLabMenu\<close>

text \<open>\<open>Private.itemCmp\<close> (lines 279-281).\<close>

definition itemCmp :: "IRankGroup \<Rightarrow> IRankGroup \<Rightarrow> int" where
  "itemCmp first second = rank first - rank second"

text \<open>
  The constructor (lines 44-47): \<open>super(options)\<close> creates a menu without items, then
  \<open>startIndex\<close> is set to 0; \<open>_groups\<close> is initialised to the empty array (line 86).
\<close>

definition JupyterLabMenu_new :: JupyterLabMenu where
  "JupyterLabMenu_new =
     \<lparr>title_label = [], menu_items = [], startIndex = 0, groups = []\<rparr>"

text \<open>
  The loop of lines 62-68. \<open>gs\<close> is \<open>this._groups\<close> (after the new group has been inserted),
  \<open>i\<close> the loop counter, the last argument the running \<open>insertIndex\<close>. The body adds
  \<open>this._groups.length + 1\<close>, the number of groups plus one, whatever \<open>i\<close> is.
\<close>

function insertIndex_loop :: "IRankGroup list \<Rightarrow> nat \<Rightarrow> nat \<Rightarrow> nat \<Rightarrow> nat" where
  "insertIndex_loop gs groupIndex i insertIndex =
     (if i < groupIndex
      then insertIndex_loop gs groupIndex (Suc i)
             (if length gs > 0 then insertIndex + (length gs + 1) else insertIndex)
      else insertIndex)"
  by pat_completeness auto
termination
  by (relation "measure (\<lambda>(gs, groupIndex, i, insertIndex). groupIndex - i)") auto

declare insertIndex_loop.simps [simp del]

text \<open>
  The loop of lines 74-76: \<open>for (let item of items) this.insertItem(insertIndex++, item)\<close>.
\<close>

fun insertItems :: "IItemOptions list \<Rightarrow> nat \<Rightarrow> 'a Menu_scheme \<Rightarrow> 'a Menu_scheme" where
  "insertItems [] insertIndex m = m"
| "insertItems (item # rest) insertIndex m =
     insertItems rest (Suc insertIndex) (Menu_insertItem insertIndex item m)"

text \<open>
  \<open>addGroup(items, rank?)\<close> (lines 53-77). The optional rank is an \<open>int option\<close>, with
  \<open>None\<close> for \<open>undefined\<close>. \<open>m1\<close> is the menu after the group has been inserted into
  \<open>_groups\<close>; the loop over the preceding groups reads \<open>this._groups.length\<close> from it.
  With a positive \<open>insertIndex\<close> the separator goes in first and the items follow from
  the next index.
\<close>

definition addGroup ::
  "IItemOptions list \<Rightarrow> int option \<Rightarrow> 'a JupyterLabMenu_scheme \<Rightarrow> 'a JupyterLabMenu_scheme" where
  "addGroup its rnk m =
     (let rankGroup = \<lparr>items = its, rank = (case rnk of None \<Rightarrow> 100 | Some r \<Rightarrow> r)\<rparr>;
          groupIndex = ArrayExt_upperBound (groups m) rankGroup itemCmp;
          m1 = m\<lparr>groups := ArrayExt_insert (groups m) groupIndex rankGroup\<rparr>;
          insertIndex = insertIndex_loop (groups m1) groupIndex 0 (startIndex m1)
      in if insertIndex > 0
         then insertItems its (Suc insertIndex) (Menu_insertItem insertIndex Separator m1)
         else insertItems its insertIndex m1)"

text \<open>
  The values of the local variables of \<open>addGroup\<close>, for the statements that are about
  them: \<open>rankGroup\<close> (line 54), \<open>groupIndex\<close> (line 57) and \<open>insertIndex\<close> as it stands
  after the loop (line 68).
\<close>

definition addGroup_rankGroup :: "IItemOptions list \<Rightarrow> int option \<Rightarrow> IRankGroup" where
  "addGroup_rankGroup its rnk =
     \<lparr>items = its, rank = (case rnk of None \<Rightarrow> 100 | Some r \<Rightarrow> r)\<rparr>"

definition addGroup_groupIndex ::
  "IItemOptions list \<Rightarrow> int option \<Rightarrow> 'a JupyterLabMenu_scheme \<Rightarrow> nat" where
  "addGroup_groupIndex its rnk m =
     ArrayExt_upperBound (groups m) (addGroup_rankGroup its rnk) itemCmp"

definition addGroup_insertIndex ::
  "IItemOptions list \<Rightarrow> int option \<Rightarrow> 'a JupyterLabMenu_scheme \<Rightarrow> nat" where
  "addGroup_insertIndex its rnk m =
     (let rankGroup = addGroup_rankGroup its rnk;
          groupIndex = addGroup_groupIndex its rnk m;
          m1 = m\<lparr>groups := ArrayExt_insert (groups m) groupIndex rankGroup\<rparr>
      in insertIndex_loop (groups m1) groupIndex 0 (startIndex m1))"

subsection \<open>KernelMenu\<close>

text \<open>
  \<open>_findUser\<close> (lines 231-236): \<open>undefined\<close> without a widget, otherwise the first user
  whose tracker has the widget.
\<close>

definition findUser ::
  "('w, 'r, 'a) KernelMenu_scheme \<Rightarrow> 'w option \<Rightarrow> ('w, 'r) IKernelUser option" where
  "findUser km widget =
     (case widget of
        None \<Rightarrow> None
      | Some w \<Rightarrow> ArrayExt_findFirstValue (users km) (\<lambda>el. has (tracker el) w))"

text \<open>\<open>addUser\<close> (lines 227-229): \<open>this._users.push(user)\<close>.\<close>

definition addUser ::
  "('w, 'r) IKernelUser \<Rightarrow> ('w, 'r, 'a) KernelMenu_scheme \<Rightarrow> ('w, 'r, 'a) KernelMenu_scheme" where
  "addUser user km = km\<lparr>users := users km @ [user]\<rparr>"

text \<open>
  The three commands the constructor registers (lines 183-220). \<open>isEnabled\<close> is
  \<open>!!user && !!user.delegate\<close>. \<open>execute\<close> is \<open>user!.delegate(widget)\<close>: the non-null
  assertion is erased at run time, so an absent user makes the property access raise a
  \<open>TypeError\<close>, and an absent delegate makes the call raise one; otherwise the delegate is
  called with \<open>app.shell.currentWidget\<close> and its result returned. A delegate is called only
  after a user was found, which needs a widget.
\<close>

definition call_delegate :: "('w \<Rightarrow> 'r) option \<Rightarrow> 'w option \<Rightarrow> error + 'r" where
  "call_delegate delegate widget =
     (case delegate of
        None \<Rightarrow> Inl TypeError
      | Some f \<Rightarrow> (case widget of None \<Rightarrow> Inl TypeError | Some w \<Rightarrow> Inr (f w)))"

definition interruptKernel_isEnabled ::
  "('w, 'r, 'a) KernelMenu_scheme \<Rightarrow> 'w JupyterLab \<Rightarrow> bool" where
  "interruptKernel_isEnabled km app =
     (case findUser km (shell_currentWidget app) of
        None \<Rightarrow> False
      | Some user \<Rightarrow> interruptKernel user \<noteq> None)"

definition interruptKernel_execute ::
  "('w, 'r, 'a) KernelMenu_scheme \<Rightarrow> 'w JupyterLab \<Rightarrow> error + 'r" where
  "interruptKernel_execute km app =
     (let widget = shell_currentWidget app
      in case findUser km widget of
           None \<Rightarrow> Inl TypeError
         | Some user \<Rightarrow> call_delegate (interruptKernel user) widget)"

definition restartKernel_isEnabled ::
  "('w, 'r, 'a) KernelMenu_scheme \<Rightarrow> 'w JupyterLab \<Rightarrow> bool" where
  "restartKernel_isEnabled km app =
     (case findUser km (shell_currentWidget app) of
        None \<Rightarrow> False
      | Some user \<Rightarrow> restartKernel user \<noteq> None)"

definition restartKernel_execute ::
  "('w, 'r, 'a) KernelMenu_scheme \<Rightarrow> 'w JupyterLab \<Rightarrow> error + 'r" where
  "restartKernel_execute km app =
     (let widget = shell_currentWidget app
      in case findUser km widget of
           None \<Rightarrow> Inl TypeError
         | Some user \<Rightarrow> call_delegate (restartKernel user) widget)"

definition changeKernel_isEnabled ::
  "('w, 'r, 'a) KernelMenu_scheme \<Rightarrow> 'w JupyterLab \<Rightarrow> bool" where
  "changeKernel_isEnabled km app =
     (case findUser km (shell_currentWidget app) of
        None \<Rightarrow> False
      | Some user \<Rightarrow> changeKernel user \<noteq> None)"

definition changeKernel_execute ::
  "('w, 'r, 'a) KernelMenu_scheme \<Rightarrow> 'w JupyterLab \<Rightarrow> error + 'r" where
  "changeKernel_execute km app =
     (let widget = shell_currentWidget app
      in case findUser km widget of
           None \<Rightarrow> Inl TypeError
         | Some user \<Rightarrow> call_delegate (changeKernel user) widget)"

text \<open>
  The constructor (lines 177-225): \<open>super(options)\<close> is the \<open>JupyterLabMenu\<close>
  constructor, extended by the field \<open>_users\<close>, which starts empty (line 238); then the
  title is set and the three command items are appended with \<open>addItem\<close>. The commands
  themselves are the six functions above.
\<close>

definition KernelMenu_new :: "('w, 'r) KernelMenu" where
  "KernelMenu_new =
     (let m0 = JupyterLabMenu.extend JupyterLabMenu_new (KernelMenu.fields []);
          m1 = m0\<lparr>title_label := ''Kernel''\<rparr>;
          m2 = Menu_addItem (Command CommandIDs_interruptKernel) m1;
          m3 = Menu_addItem (Command CommandIDs_restartKernel) m2;
          m4 = Menu_addItem (Command CommandIDs_changeKernel) m3
      in m4)"

subsection \<open>Notions of the specification\<close>

text \<open>
  Step 4 of the specification of \<open>addGroup\<close>: start at \<open>startIndex\<close>, then for every group
  preceding the new group's position, advance by that group's item count + 1 (the
  separator). This definition follows the specification, not the source; it is compared
  with \<open>addGroup_insertIndex\<close> below.
\<close>

definition insertIndex_spec ::
  "IItemOptions list \<Rightarrow> int option \<Rightarrow> 'a JupyterLabMenu_scheme \<Rightarrow> nat" where
  "insertIndex_spec its rnk m =
     startIndex m +
     sum_list (map (\<lambda>g. length (items g) + 1) (take (addGroup_groupIndex its rnk m) (groups m)))"

text \<open>
  "The first registered user whose tracker owns W", by position in the registry: the user
  at index \<open>i\<close> owns the widget and no user before it does.
\<close>

definition is_first_owner :: "('w, 'r) IKernelUser list \<Rightarrow> 'w \<Rightarrow> nat \<Rightarrow> bool" where
  "is_first_owner us w i \<longleftrightarrow>
     i < length us \<and> has (tracker (us ! i)) w \<and>
     (\<forall>u\<in>set (take i us). \<not> has (tracker u) w)"

subsection \<open>A registry for the instances\<close>

text \<open>
  Scenario D of the specification, with widgets as numbers: kind X is the widgets below 10,
  kind Y the others. \<open>U1\<close> owns kind X and supplies \<open>restartKernel\<close> only; \<open>U2\<close> owns kind
  Y and supplies \<open>interruptKernel\<close> only. \<open>U3\<close>, registered last in the instances, owns
  kind X as well and supplies all three delegates.
\<close>

definition U1 :: "(nat, nat) IKernelUser" where
  "U1 = \<lparr>tracker = \<lparr>has = (\<lambda>w. w < 10)\<rparr>, interruptKernel = None,
         restartKernel = Some (\<lambda>w. w + 100), changeKernel = None\<rparr>"

definition U2 :: "(nat, nat) IKernelUser" where
  "U2 = \<lparr>tracker = \<lparr>has = (\<lambda>w. 10 \<le> w)\<rparr>, interruptKernel = Some (\<lambda>w. w + 200),
         restartKernel = None, changeKernel = None\<rparr>"

definition U3 :: "(nat, nat) IKernelUser" where
  "U3 = \<lparr>tracker = \<lparr>has = (\<lambda>w. w < 10)\<rparr>, interruptKernel = Some (\<lambda>w. w + 300),
         restartKernel = Some (\<lambda>w. w + 300), changeKernel = Some (\<lambda>w. w + 300)\<rparr>"

section \<open>Properties of addGroup\<close>

subsection \<open>What one call does\<close>

text \<open>
  The loop over the preceding groups adds the same amount in every iteration, so the
  insertion index has a closed form: \<open>startIndex\<close> plus \<open>groupIndex\<close> times the number of
  groups (the new one included) plus one.
\<close>

lemma insertIndex_loop_closed:
  "insertIndex_loop gs groupIndex i insertIndex =
     (if gs = [] then insertIndex else insertIndex + (groupIndex - i) * (length gs + 1))"
proof (induction gs groupIndex i insertIndex rule: insertIndex_loop.induct)
  case (1 gs groupIndex i insertIndex)
  show ?case
  proof (cases "i < groupIndex")
    case True
    then have "groupIndex - i = Suc (groupIndex - Suc i)" by simp
    with True "1" show ?thesis
      by (subst insertIndex_loop.simps) (simp add: algebra_simps)
  next
    case False
    then show ?thesis by (subst insertIndex_loop.simps) simp
  qed
qed

lemma addGroup_insertIndex_closed:
  "addGroup_insertIndex its rnk m =
     startIndex m + addGroup_groupIndex its rnk m * (length (groups m) + 2)"
  by (simp add: addGroup_insertIndex_def insertIndex_loop_closed ArrayExt_insert_def Let_def)

lemma Menu_insertItem_items:
  "menu_items (Menu_insertItem i v m) = take i (menu_items m) @ v # drop i (menu_items m)"
  by (simp add: Menu_insertItem_def ArrayExt_insert_def Let_def min_def)

lemma Menu_addItem_items: "menu_items (Menu_addItem v m) = menu_items m @ [v]"
  by (simp add: Menu_addItem_def Menu_insertItem_items)

text \<open>Inserting the items one by one at consecutive indices splices the whole list in.\<close>

lemma insertItems_items:
  "menu_items (insertItems its i m) = take i (menu_items m) @ its @ drop i (menu_items m)"
proof (induction its arbitrary: i m)
  case Nil
  show ?case by simp
next
  case (Cons item rest)
  show ?case
  proof (cases "i \<le> length (menu_items m)")
    case True
    then show ?thesis
      by (simp add: Cons.IH Menu_insertItem_items take_Suc_conv_app_nth min_def nth_append)
  next
    case False
    then show ?thesis
      by (simp add: Cons.IH Menu_insertItem_items)
  qed
qed

lemma insertItems_fields:
  "groups (insertItems its i m) = groups m"
  "startIndex (insertItems its i m) = startIndex m"
  by (induction its arbitrary: i m) (simp_all add: Menu_insertItem_def Let_def)

text \<open>\<open>addGroup\<close> in terms of the values of its local variables.\<close>

lemma addGroup_unfold:
  "addGroup its rnk m =
     (let m1 = m\<lparr>groups := ArrayExt_insert (groups m) (addGroup_groupIndex its rnk m)
                              (addGroup_rankGroup its rnk)\<rparr>;
          insertIndex = addGroup_insertIndex its rnk m
      in if insertIndex > 0
         then insertItems its (Suc insertIndex) (Menu_insertItem insertIndex Separator m1)
         else insertItems its insertIndex m1)"
  by (simp add: addGroup_def addGroup_insertIndex_def addGroup_groupIndex_def
      addGroup_rankGroup_def Let_def)

lemma addGroup_groups:
  "groups (addGroup its rnk m) =
     ArrayExt_insert (groups m) (addGroup_groupIndex its rnk m) (addGroup_rankGroup its rnk)"
  by (simp add: addGroup_unfold Let_def insertItems_fields Menu_insertItem_def)

lemma addGroup_startIndex: "startIndex (addGroup its rnk m) = startIndex m"
  by (simp add: addGroup_unfold Let_def insertItems_fields Menu_insertItem_def)

text \<open>
  The flat item list after one call: with a positive insertion index, a separator and then
  the items go in at that index (at the end when the index is past the end); with index 0
  the items go to the front and no separator is inserted.
\<close>

lemma addGroup_items:
  "menu_items (addGroup its rnk m) =
     (if addGroup_insertIndex its rnk m > 0
      then take (addGroup_insertIndex its rnk m) (menu_items m) @ Separator # its @
           drop (addGroup_insertIndex its rnk m) (menu_items m)
      else its @ menu_items m)"
proof (cases "addGroup_insertIndex its rnk m \<le> length (menu_items m)")
  case True
  then show ?thesis
    by (simp add: addGroup_unfold Let_def insertItems_items Menu_insertItem_items
        take_Suc_conv_app_nth min_def nth_append)
next
  case False
  then show ?thesis
    by (simp add: addGroup_unfold Let_def insertItems_items Menu_insertItem_items)
qed

lemmas addGroup_eval =
  addGroup_items addGroup_groups addGroup_startIndex addGroup_insertIndex_closed
  addGroup_groupIndex_def addGroup_rankGroup_def ArrayExt_insert_def itemCmp_def
  JupyterLabMenu_new_def

subsection \<open>The group list\<close>

text \<open>
  The upper-bound position leaves every group of smaller or equal rank before the new
  group, so groups of equal rank stay in the order of their calls; on a list sorted by rank
  every later group has a greater rank, and the list stays sorted.
\<close>

lemma ArrayExt_insert_0: "ArrayExt_insert xs 0 v = v # xs"
  by (simp add: ArrayExt_insert_def)

lemma ArrayExt_insert_Suc: "ArrayExt_insert (x # xs) (Suc k) v = x # ArrayExt_insert xs k v"
  by (simp add: ArrayExt_insert_def Let_def min_def)

lemma set_ArrayExt_insert: "set (ArrayExt_insert xs k v) = insert v (set xs)"
proof -
  have "set (take (min k (length xs)) xs) \<union> set (drop (min k (length xs)) xs) = set xs"
    by (metis append_take_drop_id set_append)
  then show ?thesis by (auto simp add: ArrayExt_insert_def Let_def)
qed

lemma upperBound_le_length: "ArrayExt_upperBound xs v fn \<le> length xs"
  by (induction xs) simp_all

lemma upperBound_before:
  "g \<in> set (take (ArrayExt_upperBound gs v itemCmp) gs) \<Longrightarrow> rank g \<le> rank v"
  by (induction gs) (auto simp add: itemCmp_def split: if_splits)

lemma upperBound_after:
  "sorted (map rank gs) \<Longrightarrow> g \<in> set (drop (ArrayExt_upperBound gs v itemCmp) gs) \<Longrightarrow>
     rank v < rank g"
  by (induction gs) (auto simp add: itemCmp_def split: if_splits)

lemma sorted_upperBound_insert:
  "sorted (map rank gs) \<Longrightarrow>
     sorted (map rank (ArrayExt_insert gs (ArrayExt_upperBound gs v itemCmp) v))"
proof (induction gs)
  case Nil
  show ?case by (simp add: ArrayExt_insert_0)
next
  case (Cons x xs)
  show ?case
  proof (cases "itemCmp x v > 0")
    case True
    with Cons.prems show ?thesis
      by (auto simp add: ArrayExt_insert_0 itemCmp_def)
  next
    case False
    with Cons show ?thesis
      by (auto simp add: ArrayExt_insert_Suc set_ArrayExt_insert itemCmp_def)
  qed
qed

lemma addGroup_groups_sorted:
  "sorted (map rank (groups m)) \<Longrightarrow> sorted (map rank (groups (addGroup its rnk m)))"
  by (simp add: addGroup_groups addGroup_groupIndex_def sorted_upperBound_insert)

subsection \<open>Rank ordering of the flat item list\<close>

text \<open>
  C1 (P1, rank ordering): every item of a group of lower rank comes before every item of a
  group of higher rank. The code does not achieve this. After
  \<open>addGroup([a,b,c,d], 10)\<close> and \<open>addGroup([x], 20)\<close> on an empty menu, the second call
  finds one preceding group and two groups in all, so it advances the insertion index by
  \<open>2 + 1 = 3\<close> instead of by the preceding group's \<open>4 + 1 = 5\<close>: the separator and \<open>x\<close>
  (rank 20) land inside the first group, before \<open>d\<close> (rank 10).
\<close>

theorem addGroup_rank_order_broken:
  "menu_items (addGroup [Command ''x''] (Some 20)
     (addGroup [Command ''a'', Command ''b'', Command ''c'', Command ''d''] (Some 10)
        JupyterLabMenu_new)) =
   [Command ''a'', Command ''b'', Command ''c'', Separator, Command ''x'', Command ''d'']"
  by (simp add: addGroup_eval)

subsection \<open>The insertion point\<close>

text \<open>
  C2: the insertion point equals \<open>startIndex\<close> plus, for each preceding group, that group's
  item count plus one. The code adds \<open>this._groups.length + 1\<close> per preceding group
  instead. In the second call of \<open>addGroup([a,b,c,d], 10)\<close>, \<open>addGroup([x], 20)\<close> the code
  computes 3 where the rule gives 5.
\<close>

theorem addGroup_insertIndex_differs_from_spec:
  "addGroup_insertIndex [Command ''x''] (Some 20)
     (addGroup [Command ''a'', Command ''b'', Command ''c'', Command ''d''] (Some 10)
        JupyterLabMenu_new) = 3
   \<and> insertIndex_spec [Command ''x''] (Some 20)
     (addGroup [Command ''a'', Command ''b'', Command ''c'', Command ''d''] (Some 10)
        JupyterLabMenu_new) = 5"
  by (simp add: insertIndex_spec_def addGroup_eval)

subsection \<open>Scenario A\<close>

text \<open>
  C3 (Scenario A): \<open>addGroup([a,b], 50)\<close> then \<open>addGroup([c], 10)\<close> on an empty menu with
  \<open>startIndex = 0\<close> yields \<open>[c, separator, a, b]\<close>. The code yields \<open>[c, a, b]\<close>: the
  second group goes in at index 0 and nothing is inserted between it and the group that
  follows, although the loop of lines 62-68 counts one separator for every preceding
  group. The same two groups added in the other order do yield \<open>[c, separator, a, b]\<close>.
\<close>

theorem scenario_A_missing_separator:
  "menu_items (addGroup [Command ''c''] (Some 10)
     (addGroup [Command ''a'', Command ''b''] (Some 50) JupyterLabMenu_new)) =
     [Command ''c'', Command ''a'', Command ''b'']
   \<and> menu_items (addGroup [Command ''a'', Command ''b''] (Some 50)
     (addGroup [Command ''c''] (Some 10) JupyterLabMenu_new)) =
     [Command ''c'', Separator, Command ''a'', Command ''b'']"
  by (simp add: addGroup_eval)

subsection \<open>Separator placement\<close>

text \<open>
  C4 (P3, separator placement): a separator stands immediately before each group's items,
  except for the group that is the first content, and never leads the menu. The code
  breaks both halves. After \<open>addGroup([], 30)\<close> and \<open>addGroup([a], 40)\<close> on an empty menu
  the second call counts the empty group, computes the insertion index \<open>1 * (2 + 1) = 3\<close>
  and inserts a separator although the menu has no entries: the menu is \<open>[separator, a]\<close>.
  After \<open>addGroup([a], 50)\<close> and \<open>addGroup([c,d], 10)\<close> the group list is \<open>[c,d]\<close>, \<open>[a]\<close>
  and the menu is \<open>[c, d, a]\<close>: the group \<open>[a]\<close> is not the first content, and the
  element before it is \<open>d\<close>, not a separator.
\<close>

theorem separator_placement_broken:
  "menu_items (addGroup [] (Some 30) JupyterLabMenu_new) = []
   \<and> addGroup_insertIndex [Command ''a''] (Some 40)
        (addGroup [] (Some 30) JupyterLabMenu_new) = 3
   \<and> menu_items (addGroup [Command ''a''] (Some 40)
        (addGroup [] (Some 30) JupyterLabMenu_new)) = [Separator, Command ''a'']
   \<and> map items (groups (addGroup [Command ''c'', Command ''d''] (Some 10)
        (addGroup [Command ''a''] (Some 50) JupyterLabMenu_new))) =
      [[Command ''c'', Command ''d''], [Command ''a'']]
   \<and> menu_items (addGroup [Command ''c'', Command ''d''] (Some 10)
        (addGroup [Command ''a''] (Some 50) JupyterLabMenu_new)) =
      [Command ''c'', Command ''d'', Command ''a'']"
  by (simp add: addGroup_eval)

subsection \<open>Groups of equal rank\<close>

text \<open>
  C5 (P2, stability): of two groups of equal rank, the one added first appears first, in
  the group list and in the flat item order. The group list keeps the order; the flat
  order does not. After \<open>addGroup([g], 10)\<close>, \<open>addGroup([f1,...,f8], 5)\<close> and
  \<open>addGroup([h], 10)\<close> the group list is \<open>[f1..f8]\<close>, \<open>[g]\<close>, \<open>[h]\<close>, but the third call
  computes the insertion index \<open>2 * (3 + 1) = 8\<close> where the two preceding groups take
  \<open>(8 + 1) + (1 + 1) = 11\<close>, so \<open>h\<close> is inserted before \<open>g\<close>.
\<close>

theorem equal_rank_flat_order_broken:
  "map items (groups (addGroup [Command ''h''] (Some 10)
     (addGroup [Command ''f1'', Command ''f2'', Command ''f3'', Command ''f4'',
                Command ''f5'', Command ''f6'', Command ''f7'', Command ''f8''] (Some 5)
        (addGroup [Command ''g''] (Some 10) JupyterLabMenu_new)))) =
     [[Command ''f1'', Command ''f2'', Command ''f3'', Command ''f4'',
       Command ''f5'', Command ''f6'', Command ''f7'', Command ''f8''],
      [Command ''g''], [Command ''h'']]
   \<and> menu_items (addGroup [Command ''h''] (Some 10)
     (addGroup [Command ''f1'', Command ''f2'', Command ''f3'', Command ''f4'',
                Command ''f5'', Command ''f6'', Command ''f7'', Command ''f8''] (Some 5)
        (addGroup [Command ''g''] (Some 10) JupyterLabMenu_new))) =
     [Command ''f1'', Command ''f2'', Command ''f3'', Command ''f4'',
      Command ''f5'', Command ''f6'', Command ''f7'', Command ''f8'',
      Separator, Command ''h'', Command ''g'']"
  by (simp add: addGroup_eval)

subsection \<open>Groups without items\<close>

text \<open>
  C9 (P4): inserting zero-item groups does not change the relative order of the other
  groups' items. It does: an empty group counts in \<open>this._groups.length\<close> and so moves the
  insertion index of every later call that has a preceding group. The calls
  \<open>addGroup([a,b,c,d,e], 10)\<close>, \<open>addGroup([x], 20)\<close> put \<open>x\<close> after \<open>c\<close>; the same calls
  after \<open>addGroup([], 30)\<close> put \<open>x\<close> after \<open>d\<close>.
\<close>

theorem empty_group_changes_order:
  "menu_items (addGroup [Command ''x''] (Some 20)
     (addGroup [Command ''a'', Command ''b'', Command ''c'', Command ''d'', Command ''e'']
        (Some 10) JupyterLabMenu_new)) =
     [Command ''a'', Command ''b'', Command ''c'', Separator, Command ''x'',
      Command ''d'', Command ''e'']
   \<and> menu_items (addGroup [Command ''x''] (Some 20)
     (addGroup [Command ''a'', Command ''b'', Command ''c'', Command ''d'', Command ''e'']
        (Some 10) (addGroup [] (Some 30) JupyterLabMenu_new))) =
     [Command ''a'', Command ''b'', Command ''c'', Command ''d'', Separator,
      Command ''x'', Command ''e'']"
  by (simp add: addGroup_eval)

section \<open>Properties of KernelMenu\<close>

subsection \<open>The constructed menu\<close>

lemma KernelMenu_new_fields:
  "startIndex (KernelMenu_new :: ('w, 'r) KernelMenu) = 0"
  "groups (KernelMenu_new :: ('w, 'r) KernelMenu) = []"
  "users (KernelMenu_new :: ('w, 'r) KernelMenu) = []"
  "menu_items (KernelMenu_new :: ('w, 'r) KernelMenu) =
     [Command CommandIDs_interruptKernel, Command CommandIDs_restartKernel,
      Command CommandIDs_changeKernel]"
  by (simp_all add: KernelMenu_new_def JupyterLabMenu_new_def JupyterLabMenu.defs
      KernelMenu.defs Menu.defs Let_def Menu_addItem_def Menu_insertItem_def
      ArrayExt_insert_def)

text \<open>
  C10: the constructor appends the three command items and leaves \<open>startIndex\<close> at 0, so
  the first \<open>addGroup\<close> on a fresh \<open>KernelMenu\<close>, whatever its items and rank, computes the
  insertion index 0, inserts no separator and puts its items before the three seeded
  items.
\<close>

theorem KernelMenu_first_group_before_seeded_items:
  "startIndex (KernelMenu_new :: ('w, 'r) KernelMenu) = 0
   \<and> menu_items (KernelMenu_new :: ('w, 'r) KernelMenu) =
       [Command CommandIDs_interruptKernel, Command CommandIDs_restartKernel,
        Command CommandIDs_changeKernel]
   \<and> addGroup_insertIndex its rnk (KernelMenu_new :: ('w, 'r) KernelMenu) = 0
   \<and> menu_items (addGroup its rnk (KernelMenu_new :: ('w, 'r) KernelMenu)) =
       its @ [Command CommandIDs_interruptKernel, Command CommandIDs_restartKernel,
              Command CommandIDs_changeKernel]"
  by (simp add: addGroup_items addGroup_insertIndex_closed addGroup_groupIndex_def
      KernelMenu_new_fields)

subsection \<open>Finding the user\<close>

text \<open>
  \<open>findFirstValue\<close> returns the element at the least index that satisfies the predicate;
  \<open>addUser\<close> appends, so the order of the registry is the order of registration.
\<close>

lemma findFirstValue_Some_iff:
  "ArrayExt_findFirstValue xs P = Some u \<longleftrightarrow>
     (\<exists>i<length xs. xs ! i = u \<and> P u \<and> (\<forall>j<i. \<not> P (xs ! j)))"
proof (induction xs)
  case Nil
  show ?case by simp
next
  case (Cons x xs)
  show ?case
  proof (cases "P x")
    case True
    have "(\<exists>i<length (x # xs). (x # xs) ! i = u \<and> P u \<and> (\<forall>j<i. \<not> P ((x # xs) ! j))) \<longleftrightarrow> x = u"
    proof
      assume "\<exists>i<length (x # xs). (x # xs) ! i = u \<and> P u \<and> (\<forall>j<i. \<not> P ((x # xs) ! j))"
      then obtain i where i: "(x # xs) ! i = u" "\<forall>j<i. \<not> P ((x # xs) ! j)" by blast
      from i(2) True have "i = 0" by (cases i) auto
      with i(1) show "x = u" by simp
    next
      assume "x = u"
      with True show "\<exists>i<length (x # xs). (x # xs) ! i = u \<and> P u \<and> (\<forall>j<i. \<not> P ((x # xs) ! j))"
        by (intro exI [of _ 0]) simp
    qed
    with True show ?thesis by simp
  next
    case False
    have "(\<exists>i<length (x # xs). (x # xs) ! i = u \<and> P u \<and> (\<forall>j<i. \<not> P ((x # xs) ! j))) \<longleftrightarrow>
          (\<exists>i<length xs. xs ! i = u \<and> P u \<and> (\<forall>j<i. \<not> P (xs ! j)))" (is "?L \<longleftrightarrow> ?R")
    proof
      assume ?L
      then obtain i where i: "i < length (x # xs)" "(x # xs) ! i = u" "P u"
        "\<forall>j<i. \<not> P ((x # xs) ! j)" by blast
      from i(2,3) False obtain k where k: "i = Suc k" by (cases i) auto
      from i(4) k have "\<forall>j<k. \<not> P (xs ! j)" by auto
      with i k show ?R by auto
    next
      assume ?R
      then obtain i where i: "i < length xs" "xs ! i = u" "P u" "\<forall>j<i. \<not> P (xs ! j)" by blast
      from i(4) False have "\<forall>j<Suc i. \<not> P ((x # xs) ! j)" by (auto simp: less_Suc_eq_0_disj)
      with i show ?L by (intro exI [of _ "Suc i"]) simp
    qed
    with False Cons.IH show ?thesis by simp
  qed
qed

lemma all_take_iff_nth:
  assumes "i \<le> length xs"
  shows "(\<forall>u\<in>set (take i xs). Q u) \<longleftrightarrow> (\<forall>j<i. Q (xs ! j))"
proof
  assume L: "\<forall>u\<in>set (take i xs). Q u"
  show "\<forall>j<i. Q (xs ! j)"
  proof (intro allI impI)
    fix j assume "j < i"
    with assms have "take i xs ! j \<in> set (take i xs)" by (intro nth_mem) simp
    with L \<open>j < i\<close> show "Q (xs ! j)" by auto
  qed
next
  assume "\<forall>j<i. Q (xs ! j)"
  then show "\<forall>u\<in>set (take i xs). Q u"
    by (auto simp add: in_set_conv_nth)
qed

lemma is_first_owner_nth:
  "is_first_owner us w i \<longleftrightarrow>
     i < length us \<and> has (tracker (us ! i)) w \<and> (\<forall>j<i. \<not> has (tracker (us ! j)) w)"
  using all_take_iff_nth [of i us "\<lambda>u. \<not> has (tracker u) w"]
  by (auto simp add: is_first_owner_def)

lemma findUser_Some_iff:
  "findUser km (Some w) = Some u \<longleftrightarrow> (\<exists>i. is_first_owner (users km) w i \<and> users km ! i = u)"
  by (auto simp add: findUser_def is_first_owner_nth findFirstValue_Some_iff)

lemma findUser_no_widget: "findUser km None = None"
  by (simp add: findUser_def)

lemma is_first_owner_unique:
  "is_first_owner us w i \<Longrightarrow> is_first_owner us w j \<Longrightarrow> i = j"
  unfolding is_first_owner_nth by (meson linorder_neqE_nat)

lemma addUser_users: "users (fold addUser us km) = users km @ us"
  by (induction us arbitrary: km) (simp_all add: addUser_def)

lemma findUser_cases:
  obtains (none) "findUser km (Some w) = None" "\<And>i. \<not> is_first_owner (users km) w i"
  | (some) i where "findUser km (Some w) = Some (users km ! i)"
      "\<And>j. is_first_owner (users km) w j \<longleftrightarrow> j = i"
proof (cases "findUser km (Some w)")
  case None
  have "\<not> is_first_owner (users km) w i" for i
  proof
    assume "is_first_owner (users km) w i"
    then have "findUser km (Some w) = Some (users km ! i)"
      by (auto simp add: findUser_Some_iff)
    with None show False by simp
  qed
  with None show thesis by (rule none)
next
  case (Some u)
  then obtain i where i: "is_first_owner (users km) w i" "users km ! i = u"
    by (auto simp add: findUser_Some_iff)
  have "is_first_owner (users km) w j \<longleftrightarrow> j = i" for j
    using i(1) is_first_owner_unique [of "users km" w j i] by blast
  with Some i(2) show thesis by (intro some [of i]) simp_all
qed

subsection \<open>Delegation\<close>

text \<open>
  C6 (P5, kernel delegation): with a focused widget \<open>w\<close>, each of the three commands is
  enabled iff the first user of the registry whose tracker owns \<open>w\<close> supplies the
  corresponding delegate, and executing the command then returns what that user's delegate
  returns on \<open>w\<close>.
\<close>

theorem kernel_delegation:
  assumes "shell_currentWidget app = Some w"
  shows
   "(interruptKernel_isEnabled km app \<longleftrightarrow>
       (\<exists>i. is_first_owner (users km) w i \<and> interruptKernel (users km ! i) \<noteq> None))
    \<and> (restartKernel_isEnabled km app \<longleftrightarrow>
       (\<exists>i. is_first_owner (users km) w i \<and> restartKernel (users km ! i) \<noteq> None))
    \<and> (changeKernel_isEnabled km app \<longleftrightarrow>
       (\<exists>i. is_first_owner (users km) w i \<and> changeKernel (users km ! i) \<noteq> None))
    \<and> (\<forall>i f. is_first_owner (users km) w i \<and> interruptKernel (users km ! i) = Some f \<longrightarrow>
          interruptKernel_execute km app = Inr (f w))
    \<and> (\<forall>i f. is_first_owner (users km) w i \<and> restartKernel (users km ! i) = Some f \<longrightarrow>
          restartKernel_execute km app = Inr (f w))
    \<and> (\<forall>i f. is_first_owner (users km) w i \<and> changeKernel (users km ! i) = Some f \<longrightarrow>
          changeKernel_execute km app = Inr (f w))"
proof (cases km w rule: findUser_cases)
  case none
  with assms show ?thesis
    by (simp add: interruptKernel_isEnabled_def restartKernel_isEnabled_def
        changeKernel_isEnabled_def)
next
  case (some i)
  with assms show ?thesis
    by (simp add: interruptKernel_isEnabled_def restartKernel_isEnabled_def
        changeKernel_isEnabled_def interruptKernel_execute_def restartKernel_execute_def
        changeKernel_execute_def call_delegate_def Let_def)
qed

text \<open>
  C6, an instance: \<open>U1\<close>, \<open>U2\<close>, \<open>U3\<close> registered in this order, widget 3 (kind X)
  focused. \<open>U1\<close> is the first owner: restart is enabled and calls the delegate of \<open>U1\<close>,
  not that of \<open>U3\<close>; interrupt is disabled although \<open>U3\<close> supplies it.
\<close>

theorem kernel_delegation_witness:
  "shell_currentWidget \<lparr>shell_currentWidget = Some (3::nat)\<rparr> = Some 3
   \<and> is_first_owner (users (addUser U3 (addUser U2 (addUser U1 KernelMenu_new)))) 3 0
   \<and> restartKernel (users (addUser U3 (addUser U2 (addUser U1 KernelMenu_new))) ! 0) = Some (\<lambda>w. w + 100)
   \<and> restartKernel_isEnabled (addUser U3 (addUser U2 (addUser U1 KernelMenu_new)))
        \<lparr>shell_currentWidget = Some 3\<rparr>
   \<and> restartKernel_execute (addUser U3 (addUser U2 (addUser U1 KernelMenu_new)))
        \<lparr>shell_currentWidget = Some 3\<rparr> = Inr 103
   \<and> \<not> interruptKernel_isEnabled (addUser U3 (addUser U2 (addUser U1 KernelMenu_new)))
        \<lparr>shell_currentWidget = Some 3\<rparr>"
  using kernel_delegation [of "\<lparr>shell_currentWidget = Some (3::nat)\<rparr>" 3
      "addUser U3 (addUser U2 (addUser U1 KernelMenu_new))"]
  by (simp add: is_first_owner_def addUser_def KernelMenu_new_fields U1_def U2_def U3_def
      interruptKernel_isEnabled_def restartKernel_isEnabled_def restartKernel_execute_def
      findUser_def call_delegate_def)

subsection \<open>Executing a command that is not enabled\<close>

text \<open>
  C7: executing a command when no user matches, when no widget is focused or when the
  matching user lacks the delegate is said to be a no-op that raises nothing. On a fresh
  menu with no focused widget, \<open>_findUser\<close> returns \<open>undefined\<close> and
  \<open>user!.interruptKernel\<close> raises a \<open>TypeError\<close>.
\<close>

theorem execute_no_op_counterexample:
  "interruptKernel_execute (KernelMenu_new :: (nat, nat) KernelMenu)
     \<lparr>shell_currentWidget = None\<rparr> = Inl TypeError"
  by (simp add: interruptKernel_execute_def findUser_def)

text \<open>
  C7, as the code has it: whenever a command is not enabled, executing it raises a
  \<open>TypeError\<close>.
\<close>

theorem execute_without_delegate_raises:
  "(\<not> interruptKernel_isEnabled km app \<longrightarrow> interruptKernel_execute km app = Inl TypeError)
   \<and> (\<not> restartKernel_isEnabled km app \<longrightarrow> restartKernel_execute km app = Inl TypeError)
   \<and> (\<not> changeKernel_isEnabled km app \<longrightarrow> changeKernel_execute km app = Inl TypeError)"
  by (simp add: interruptKernel_isEnabled_def restartKernel_isEnabled_def
      changeKernel_isEnabled_def interruptKernel_execute_def restartKernel_execute_def
      changeKernel_execute_def call_delegate_def Let_def split: option.splits)

text \<open>
  C7, instances with \<open>U1\<close> registered: widget 3 focused, \<open>U1\<close> owns it but has no
  \<open>changeKernel\<close>; widget 12 focused, no user owns it; no widget focused.
\<close>

theorem execute_without_delegate_raises_witness:
  "\<not> changeKernel_isEnabled (addUser U1 KernelMenu_new) \<lparr>shell_currentWidget = Some 3\<rparr>
   \<and> changeKernel_execute (addUser U1 KernelMenu_new) \<lparr>shell_currentWidget = Some 3\<rparr> =
       Inl TypeError
   \<and> \<not> interruptKernel_isEnabled (addUser U1 KernelMenu_new) \<lparr>shell_currentWidget = Some 12\<rparr>
   \<and> interruptKernel_execute (addUser U1 KernelMenu_new) \<lparr>shell_currentWidget = Some 12\<rparr> =
       Inl TypeError
   \<and> \<not> restartKernel_isEnabled (addUser U1 KernelMenu_new) \<lparr>shell_currentWidget = None\<rparr>
   \<and> restartKernel_execute (addUser U1 KernelMenu_new) \<lparr>shell_currentWidget = None\<rparr> =
       Inl TypeError"
  using execute_without_delegate_raises
      [of "addUser U1 KernelMenu_new" "\<lparr>shell_currentWidget = Some 3\<rparr>"]
    execute_without_delegate_raises
      [of "addUser U1 KernelMenu_new" "\<lparr>shell_currentWidget = Some 12\<rparr>"]
    execute_without_delegate_raises
      [of "addUser U1 KernelMenu_new" "\<lparr>shell_currentWidget = None\<rparr>"]
  by (simp add: addUser_def KernelMenu_new_fields U1_def
      interruptKernel_isEnabled_def restartKernel_isEnabled_def changeKernel_isEnabled_def
      findUser_def)

subsection \<open>Enablement without users or without a focused widget\<close>

text \<open>
  C8 (Scenario C): with an empty registry none of the three commands is enabled, whatever
  is focused; and with no focused widget none is enabled, whatever the registry.
\<close>

theorem enablement_false_without_user_or_widget:
  "(users km = [] \<longrightarrow>
      \<not> interruptKernel_isEnabled km app \<and> \<not> restartKernel_isEnabled km app \<and>
      \<not> changeKernel_isEnabled km app)
   \<and> (shell_currentWidget app = None \<longrightarrow>
      \<not> interruptKernel_isEnabled km app \<and> \<not> restartKernel_isEnabled km app \<and>
      \<not> changeKernel_isEnabled km app)"
  by (auto simp add: interruptKernel_isEnabled_def restartKernel_isEnabled_def
      changeKernel_isEnabled_def findUser_def split: option.splits)

text \<open>
  C8, instances: the fresh menu with widget 3 focused; the menu with \<open>U1\<close> registered and
  nothing focused.
\<close>

theorem enablement_false_without_user_or_widget_witness:
  "users (KernelMenu_new :: (nat, nat) KernelMenu) = []
   \<and> \<not> interruptKernel_isEnabled (KernelMenu_new :: (nat, nat) KernelMenu)
         \<lparr>shell_currentWidget = Some 3\<rparr>
   \<and> shell_currentWidget \<lparr>shell_currentWidget = (None :: nat option)\<rparr> = None
   \<and> \<not> restartKernel_isEnabled (addUser U1 KernelMenu_new) \<lparr>shell_currentWidget = None\<rparr>"
  using enablement_false_without_user_or_widget
      [of "KernelMenu_new :: (nat, nat) KernelMenu" "\<lparr>shell_currentWidget = Some 3\<rparr>"]
    enablement_false_without_user_or_widget
      [of "addUser U1 KernelMenu_new" "\<lparr>shell_currentWidget = None\<rparr>"]
  by (simp add: KernelMenu_new_fields)

end
